theory Spec2Isabelle
  imports Complex_Main
begin

section \<open>Runtime values\<close>

text \<open>
  A JavaScript number, as far as index.js looks at it: \<open>Number.isNaN\<close>, \<open>Number.isFinite\<close>
  and comparison with a length. Finite doubles are read as the reals they denote.
\<close>

datatype num = NaN | PosInf | NegInf | Finite real

text \<open>The mode of a guarded function: \<open>{params: "fix"}\<close> or \<open>{params: "var"}\<close>.\<close>

datatype params = Fix | Var

text \<open>
  The values the library inspects, one constructor for each way \<open>typeof\<close> and
  \<open>toTypeTag\<close> can come out.
  \<^item> \<open>VStr s n\<close>: the string \<open>s\<close>, together with the number that \<open>Number(s)\<close> reads it as.
  \<^item> \<open>VFun name length code\<close>: a function with its \<open>name\<close> and \<open>length\<close> properties; \<open>code\<close>
    identifies its body in a table of behaviours.
  \<^item> \<open>VGuarded name f log params nthCall\<close>: \<open>new Proxy(f, handleF(name, f, log, {params, nthCall}))\<close>.
  \<^item> \<open>VArr\<close>: a dense Array. \<open>VObj\<close>: a plain object, its own enumerable string keys in
    \<open>Object.keys\<close> order. \<open>VMap\<close> and \<open>VSet\<close>: a Map and a Set in insertion order.
  \<^item> \<open>VRec\<close>: an instance of \<open>Rec\<close> with its fields. \<open>VTup\<close>: an instance of \<open>Tup\<close>.
  \<^item> \<open>VTagged tag forbid\<close>: an object of any other class without properties of its own that
    index.js reads. \<open>tag\<close> is what \<open>toTypeTag\<close> returns for it; \<open>forbid\<close> says that the class
    throws on coercion through \<open>Symbol.toPrimitive\<close>, as \<open>All\<close>, \<open>Any\<close>, \<open>Char\<close>, \<open>Float\<close>,
    \<open>Int\<close>, \<open>Product\<close> and \<open>Sum\<close> do; otherwise it converts as \<open>Object.prototype\<close> does.
  \<^item> \<open>VSig tag sig\<close>: an object that carries the property \<open>SIG\<close> with the string \<open>sig\<close>,
    as the values built by \<open>Type\<close> and \<open>Data\<close> do.
  \<^item> \<open>VId i v\<close>: the object or Symbol \<open>v\<close> as the one with the identity \<open>i\<close>. What an
    object holds does not say which object it is: two objects are the same object when both
    carry the same identity, and an object without one is an object of its own, different
    from every other.
\<close>

datatype val =
    VUndefined
  | VNull
  | VBool bool
  | VNum num
  | VStr string num
  | VSym
  | VBigInt int
  | VFun string nat nat
  | VGuarded string val "string list" params nat
  | VArr "val list"
  | VObj "(string \<times> val) list"
  | VMap "(val \<times> val) list"
  | VSet "val list"
  | VRec "(string \<times> val) list"
  | VTup "val list"
  | VTagged string bool
  | VSig string string
  | VId nat val

text \<open>
  The errors index.js throws, by class. \<open>ArgTypeError\<close> and \<open>ArityError\<close> keep the numbers
  their messages name: the call and the argument for the first, the expected arity, the call
  and the received arity for the second. \<open>TypeError\<close> is the built-in class; \<open>Thrown\<close> is any
  other exception of user code.
\<close>

datatype error =
    ArgTypeError nat nat
  | ArgValueError
  | ArityError nat nat nat
  | ReturnTypeError
  | TypeCoercionError
  | OverloadError
  | TypeError
  | Thrown string

text \<open>
  What \<open>introspect\<close> returns: a string, or \<open>undefined\<close> where its \<open>switch\<close> has no case.
\<close>

type_synonym desc = "string option"

text \<open>\<open>typeof v === "function"\<close> and \<open>typeof v === "symbol"\<close>.\<close>

fun is_function :: "val \<Rightarrow> bool" where
  "is_function (VFun n l c) = True"
| "is_function (VGuarded n f lg p k) = True"
| "is_function (VId i v) = is_function v"
| "is_function v = False"

fun is_symbol :: "val \<Rightarrow> bool" where
  "is_symbol VSym = True"
| "is_symbol (VId i v) = is_symbol v"
| "is_symbol v = False"

text \<open>
  \<open>SameValueZero\<close>, the comparison of the keys of a Map, and \<open>SameValue\<close>, which differs
  from it on the two zeros only, that \<open>num\<close> holds as one. Undefined, null, booleans,
  numbers (\<open>NaN\<close> is the same as \<open>NaN\<close>), strings and BigInts are compared by what they
  are, a string by its text; objects and Symbols by their identity.
\<close>

fun identity :: "val \<Rightarrow> nat option" where
  "identity (VId i v) = Some i"
| "identity v = None"

fun by_value :: "val \<Rightarrow> bool" where
  "by_value VUndefined = True"
| "by_value VNull = True"
| "by_value (VBool b) = True"
| "by_value (VNum x) = True"
| "by_value (VStr s x) = True"
| "by_value (VBigInt i) = True"
| "by_value v = False"

fun text_only :: "val \<Rightarrow> val" where
  "text_only (VStr s x) = VStr s NaN"
| "text_only v = v"

definition same_value :: "val \<Rightarrow> val \<Rightarrow> bool" where
  "same_value a b =
     (case identity a of
        Some i \<Rightarrow> identity b = Some i
      | None \<Rightarrow> identity b = None \<and> by_value a \<and> by_value b \<and> text_only a = text_only b)"

section \<open>Strings, arrays of strings and Sets of strings\<close>

text \<open>The letter lambda (U+03BB) of \<open>`\<lambda>${x.name}`\<close>, in UTF-8.\<close>

definition lambda :: string where
  "lambda = [CHR 0xCE, CHR 0xBB]"

text \<open>A value inside a template literal: \<open>`${t}`\<close>.\<close>

fun tmpl :: "desc \<Rightarrow> string" where
  "tmpl None = ''undefined''"
| "tmpl (Some s) = s"

text \<open>\<open>Array.prototype.join\<close>: an element that is \<open>undefined\<close> is written as the empty string.\<close>

fun elem_str :: "desc \<Rightarrow> string" where
  "elem_str None = ''''"
| "elem_str (Some s) = s"

fun join_strs :: "string \<Rightarrow> string list \<Rightarrow> string" where
  "join_strs sep [] = ''''"
| "join_strs sep [x] = x"
| "join_strs sep (x # y # ys) = x @ sep @ join_strs sep (y # ys)"

definition join :: "string \<Rightarrow> desc list \<Rightarrow> string" where
  "join sep ts = join_strs sep (map elem_str ts)"

text \<open>
  A JavaScript \<open>Set\<close> keeps its elements in insertion order; \<open>s.add(x)\<close> changes nothing when
  \<open>x\<close> is already there. \<open>set_of\<close> is the Set a \<open>reduce\<close> or \<open>forEach\<close> builds by adding the
  elements of a list one after the other to \<open>new Set()\<close>.
\<close>

definition set_add :: "'a \<Rightarrow> 'a list \<Rightarrow> 'a list" where
  "set_add x s = (if x \<in> set s then s else s @ [x])"

definition set_of :: "'a list \<Rightarrow> 'a list" where
  "set_of xs = foldl (\<lambda>s x. set_add x s) [] xs"

text \<open>\<open>s.split(": ")\<close>: the pieces of \<open>s\<close> between the occurrences of the separator.\<close>

fun split_acc :: "string \<Rightarrow> string \<Rightarrow> string \<Rightarrow> string list" where
  "split_acc sep cur [] = [rev cur]"
| "split_acc sep cur (c # cs) =
     (if sep \<noteq> [] \<and> take (length sep) (c # cs) = sep
      then rev cur # split_acc sep [] (drop (length sep) (c # cs))
      else split_acc sep (c # cur) cs)"

definition split :: "string \<Rightarrow> string \<Rightarrow> string list" where
  "split sep s = split_acc sep [] s"

text \<open>\<open>xs[1]\<close> inside a template literal: \<open>undefined\<close> when the array is shorter.\<close>

fun second :: "string list \<Rightarrow> desc" where
  "second (a # b # bs) = Some b"
| "second bs = None"

section \<open>Coercions\<close>

text \<open>
  \<open>ToString\<close>, as a template literal and \<open>Array.prototype.join\<close> apply it: only whether it
  throws matters below, since \<open>introspect\<close> maps every string to \<open>"String"\<close>. A Symbol
  cannot be converted; \<open>Rec\<close>, \<open>Tup\<close> and the boxed classes throw from
  \<open>Symbol.toPrimitive\<close>; an Array converts its elements in turn. A plain object is
  converted by its \<open>toString\<close>, then by its \<open>valueOf\<close>, where a property of its own that
  is not a function is passed over: the \<open>toString\<close> of \<open>Object.prototype\<close> returns a
  string and its \<open>valueOf\<close> the object itself, so that the conversion throws a \<open>TypeError\<close>
  exactly when the object has a \<open>toString\<close> of its own that is not a function. A
  \<open>toString\<close> or \<open>valueOf\<close> of its own that is a function is taken to do what the
  inherited one does.
\<close>

fun to_string :: "val \<Rightarrow> error option"
  and to_strings :: "val list \<Rightarrow> error option" where
  "to_string VSym = Some TypeError"
| "to_string (VRec fs) = Some TypeCoercionError"
| "to_string (VTup xs) = Some TypeCoercionError"
| "to_string (VTagged t forbid) = (if forbid then Some TypeCoercionError else None)"
| "to_string (VArr xs) = to_strings xs"
| "to_string (VObj fs) =
     (case map_of fs ''toString'' of
        None \<Rightarrow> None
      | Some m \<Rightarrow> if is_function m then None else Some TypeError)"
| "to_string (VId i v) = to_string v"
| "to_string v = None"
| "to_strings [] = None"
| "to_strings (x # xs) = (case to_string x of Some e \<Rightarrow> Some e | None \<Rightarrow> to_strings xs)"

text \<open>
  \<open>Number(String(v))\<close>: the number read back from the string \<open>v\<close> converts to. An Array
  gives the join of its elements, which reads as a number only when there is at most one.
  For an object this is also the number that the conversion with the hint \<open>number\<close> gives,
  which asks \<open>valueOf\<close> before \<open>toString\<close>.
\<close>

fun str_num :: "val \<Rightarrow> error + num" where
  "str_num VUndefined = Inr NaN"
| "str_num VNull = Inr NaN"
| "str_num (VBool b) = Inr NaN"
| "str_num (VNum x) = Inr x"
| "str_num (VStr s x) = Inr x"
| "str_num VSym = Inl TypeError"
| "str_num (VBigInt i) = Inr (Finite (of_int i))"
| "str_num (VRec fs) = Inl TypeCoercionError"
| "str_num (VTup xs) = Inl TypeCoercionError"
| "str_num (VTagged t forbid) = (if forbid then Inl TypeCoercionError else Inr NaN)"
| "str_num (VArr []) = Inr (Finite 0)"
| "str_num (VArr [x]) =
     (if x = VUndefined \<or> x = VNull then Inr (Finite 0) else str_num x)"
| "str_num (VArr (x # y # ys)) =
     (case to_strings (x # y # ys) of Some e \<Rightarrow> Inl e | None \<Rightarrow> Inr NaN)"
| "str_num (VObj fs) =
     (case map_of fs ''toString'' of
        None \<Rightarrow> Inr NaN
      | Some m \<Rightarrow> if is_function m then Inr NaN else Inl TypeError)"
| "str_num (VId i v) = str_num v"
| "str_num v = Inr NaN"

fun num_gt :: "num \<Rightarrow> nat \<Rightarrow> bool" where
  "num_gt NaN n = False"
| "num_gt PosInf n = True"
| "num_gt NegInf n = False"
| "num_gt (Finite r) n = (r > real n)"

text \<open>
  \<open>v > n\<close> for a number \<open>n\<close>: the operand is converted to a primitive with the hint
  \<open>number\<close> and compared as a number, a BigInt by its value.
\<close>

fun js_gt :: "val \<Rightarrow> nat \<Rightarrow> error + bool" where
  "js_gt VUndefined n = Inr False"
| "js_gt VNull n = Inr False"
| "js_gt (VBool b) n = Inr ((if b then 1 else 0) > n)"
| "js_gt (VBigInt i) n = Inr (i > int n)"
| "js_gt (VId i v) n = js_gt v n"
| "js_gt v n = (case str_num v of Inl e \<Rightarrow> Inl e | Inr x \<Rightarrow> Inr (num_gt x n))"

section \<open>Globals\<close>

definition INVALID_TYPES :: "string list" where
  "INVALID_TYPES = [''Undefined'', ''NaN'', ''Infinity'']"

definition GUARDED :: bool where
  "GUARDED = True"

definition HISTORY_LEN :: nat where
  "HISTORY_LEN = 10"

definition MAX_REC_SIZE :: nat where
  "MAX_REC_SIZE = 16"

definition MAX_TUP_SIZE :: nat where
  "MAX_TUP_SIZE = 8"

text \<open>\<open>INVALID_TYPES.has(t)\<close>; \<open>undefined\<close> is not in the Set.\<close>

fun invalid :: "desc \<Rightarrow> bool" where
  "invalid None = False"
| "invalid (Some t) = (t \<in> set INVALID_TYPES)"

section \<open>Introspection\<close>

text \<open>\<open>toTypeTag\<close>: the last word of \<open>Object.prototype.toString.call(x)\<close>.\<close>

fun toTypeTag :: "val \<Rightarrow> string" where
  "toTypeTag VUndefined = ''Undefined''"
| "toTypeTag VNull = ''Null''"
| "toTypeTag (VBool b) = ''Boolean''"
| "toTypeTag (VNum x) = ''Number''"
| "toTypeTag (VStr s x) = ''String''"
| "toTypeTag VSym = ''Symbol''"
| "toTypeTag (VBigInt i) = ''BigInt''"
| "toTypeTag (VFun n l c) = ''Function''"
| "toTypeTag (VGuarded n f lg p k) = ''Function''"
| "toTypeTag (VArr xs) = ''Array''"
| "toTypeTag (VObj fs) = ''Object''"
| "toTypeTag (VMap kvs) = ''Map''"
| "toTypeTag (VSet xs) = ''Set''"
| "toTypeTag (VRec fs) = ''Record''"
| "toTypeTag (VTup xs) = ''Tuple''"
| "toTypeTag (VTagged t forbid) = t"
| "toTypeTag (VSig t sg) = t"
| "toTypeTag (VId i v) = toTypeTag v"

text \<open>The property \<open>name\<close> of a function; a guarded function answers from its handler.\<close>

fun fun_name :: "val \<Rightarrow> string" where
  "fun_name (VFun n l c) = n"
| "fun_name (VGuarded n f lg p k) = n"
| "fun_name (VId i v) = fun_name v"
| "fun_name v = []"

text \<open>\<open>r.length\<close> of a record: its field of that name, or \<open>undefined\<close>.\<close>

fun field :: "(string \<times> val) list \<Rightarrow> string \<Rightarrow> val" where
  "field [] k = VUndefined"
| "field ((k', v) # fs) k = (if k' = k then v else field fs k)"

text \<open>
  The template literals \<open>`${k}: ${r[k]}`\<close> of \<open>introspectRec\<close>, key after key: the first
  conversion that throws ends the \<open>map\<close>; otherwise each is a string, which
  \<open>introspect\<close> describes as \<open>"String"\<close>.
\<close>

fun rec_strings :: "(string \<times> val) list \<Rightarrow> error + desc list" where
  "rec_strings [] = Inr []"
| "rec_strings ((k, v) # fs) =
     (case to_string v of
        Some e \<Rightarrow> Inl e
      | None \<Rightarrow> (case rec_strings fs of Inl e \<Rightarrow> Inl e | Inr ts \<Rightarrow> Inr (Some ''String'' # ts)))"

text \<open>
  What \<open>introspectArr\<close>, \<open>introspectMap\<close>, \<open>introspectObj\<close> and \<open>introspectSet\<close> make of
  the descriptors their traversal (\<open>reduce\<close>, \<open>forEach\<close>) has computed: \<open>ts\<close> holds one
  entry for each element visited, in order, and \<open>set_of ts\<close> is the Set \<open>s\<close>. For an array
  \<open>len\<close> is \<open>xs.length\<close>, which is \<open>length ts\<close> unless the array has holes, that
  \<open>reduce\<close> skips; \<open>ks.length\<close> is \<open>length ts\<close>.
\<close>

definition introspectArr :: "nat \<Rightarrow> desc list \<Rightarrow> desc" where
  "introspectArr len ts =
     (let s = set_of ts in
      if len \<le> MAX_TUP_SIZE then
        (if length s = 1 then Some (''['' @ tmpl (hd s) @ '']'')
         else Some (''['' @ join '', '' ts @ '']''))
      else
        (if length s = 1 then Some (''['' @ tmpl (hd s) @ '']'')
         else Some ''[?]''))"

definition introspectMap :: "string list \<Rightarrow> desc" where
  "introspectMap ps =
     (let s = set_of ps in
      if length s = 1 then Some (''Map<'' @ hd s @ ''>'')
      else Some ''Map<?>'')"

definition introspectObj :: "string list \<Rightarrow> desc" where
  "introspectObj ts =
     (let s = set_of ts in
      if length ts \<le> MAX_REC_SIZE then
        (if length s = 1
         then Some (''{String: '' @ tmpl (second (split '': '' (hd s))) @ ''}'')
         else Some (''{'' @ join_strs '', '' ts @ ''}''))
      else
        (if length s = 1
         then Some (''{String: '' @ tmpl (second (split '': '' (hd s))) @ ''}'')
         else Some ''{?}''))"

definition introspectSet :: "desc list \<Rightarrow> desc" where
  "introspectSet ts =
     (let s = set_of ts in
      if length s = 1 then Some (''Set<'' @ tmpl (hd s) @ ''>'')
      else Some ''Set<?>'')"

text \<open>The result of a traversal handed on, an exception passed through.\<close>

fun on_result :: "('a \<Rightarrow> 'b) \<Rightarrow> error + 'a \<Rightarrow> error + 'b" where
  "on_result f (Inl e) = Inl e"
| "on_result f (Inr x) = Inr (f x)"

text \<open>
  The value of \<open>introspect\<close> is \<open>Inl\<close> for an exception and \<open>Inr\<close> for what it returns.
  \<open>introspects\<close>, \<open>introspectPairs\<close> and \<open>introspectProps\<close> are the traversals of the
  elements of an Array, Set or Tuple, of the entries of a Map (the key before the value) and
  of the properties of a plain object; the first exception ends them. The cases of
  \<open>VRec\<close> and \<open>VTup\<close> are \<open>introspectRec\<close> and \<open>introspectTup\<close>. An object that only
  carries one of the tags \<open>Array\<close>, \<open>Map\<close> or \<open>Set\<close> has no \<open>reduce\<close> or \<open>forEach\<close> to
  call; with the tag \<open>Record\<close>, \<open>Tuple\<close> or \<open>Object\<close> it is described as an empty one.
  The property \<open>SIG\<close> is returned unless the tag is \<open>Null\<close>.
\<close>

function (sequential) introspect :: "val \<Rightarrow> error + desc"
  and introspects :: "val list \<Rightarrow> error + desc list"
  and introspectPairs :: "(val \<times> val) list \<Rightarrow> error + string list"
  and introspectProps :: "(string \<times> val) list \<Rightarrow> error + string list" where
  "introspect (VBool b) = Inr (Some ''Boolean'')"
| "introspect (VFun n l c) = Inr (Some (lambda @ n))"
| "introspect (VGuarded n f lg p k) = Inr (Some (lambda @ n))"
| "introspect (VNum x) =
     (if x = NaN then Inr (Some ''NaN'')
      else if x = PosInf \<or> x = NegInf then Inr (Some ''Infinity'')
      else Inr (Some ''Number''))"
| "introspect (VSig t sg) = (if t \<noteq> ''Null'' then Inr (Some sg) else Inr (Some t))"
| "introspect (VId i v) = introspect v"
| "introspect (VArr xs) = on_result (introspectArr (length xs)) (introspects xs)"
| "introspect (VMap kvs) = on_result introspectMap (introspectPairs kvs)"
| "introspect VNull = Inr (Some ''Null'')"
| "introspect (VRec fs) =
     (case js_gt (field fs ''length'') MAX_REC_SIZE of
        Inl e \<Rightarrow> Inl e
      | Inr True \<Rightarrow> Inr (Some ''Record<?>'')
      | Inr False \<Rightarrow>
          on_result (\<lambda>ts. Some (''Record<'' @ join '', '' ts @ ''>'')) (rec_strings fs))"
| "introspect (VSet xs) = on_result introspectSet (introspects xs)"
| "introspect (VTup xs) =
     (if length xs > MAX_TUP_SIZE then Inr (Some ''Tuple<?>'')
      else on_result (\<lambda>ts. Some (''Tuple<'' @ join '', '' ts @ ''>'')) (introspects xs))"
| "introspect (VObj fs) = on_result introspectObj (introspectProps fs)"
| "introspect (VTagged t forbid) =
     (if t = ''Array'' \<or> t = ''Map'' \<or> t = ''Set'' then Inl TypeError
      else if t = ''Null'' then Inr (Some t)
      else if t = ''Record'' then Inr (Some ''Record<>'')
      else if t = ''Tuple'' then Inr (Some ''Tuple<>'')
      else if t = ''Object'' then Inr (Some ''{}'')
      else Inr (Some t))"
| "introspect (VStr s x) = Inr (Some ''String'')"
| "introspect VSym = Inr (Some ''Symbol'')"
| "introspect VUndefined = Inr (Some ''Undefined'')"
| "introspect (VBigInt i) = Inr None"
| "introspects [] = Inr []"
| "introspects (x # xs) =
     (case introspect x of
        Inl e \<Rightarrow> Inl e
      | Inr t \<Rightarrow> on_result ((#) t) (introspects xs))"
| "introspectPairs [] = Inr []"
| "introspectPairs ((k, v) # kvs) =
     (case introspect k of
        Inl e \<Rightarrow> Inl e
      | Inr tk \<Rightarrow>
          (case introspect v of
             Inl e \<Rightarrow> Inl e
           | Inr tv \<Rightarrow> on_result ((#) (tmpl tk @ '', '' @ tmpl tv)) (introspectPairs kvs)))"
| "introspectProps [] = Inr []"
| "introspectProps ((k, v) # fs) =
     (case introspect v of
        Inl e \<Rightarrow> Inl e
      | Inr t \<Rightarrow> on_result ((#) (k @ '': '' @ tmpl t)) (introspectProps fs))"
  by pat_completeness auto

termination
  by (relation "measure (case_sum (case_sum size (size_list size))
        (case_sum (size_list (size_prod size size)) (size_list (size_prod (\<lambda>k. 0) size))))")
     auto

section \<open>The call history\<close>

text \<open>
  The module's mutable state. \<open>history\<close> is the global array of that name: each entry is
  what \<open>setHistory\<close> was given, the log of a chain of calls (an array of call records).
  The record type is extensible, for code that has more state than the history.
\<close>

record state =
  history :: "string list list"

text \<open>\<open>history.unshift(s)\<close>, then \<open>history.pop()\<close> when the array has become too long.\<close>

definition setHistory :: "string list \<Rightarrow> string list list \<Rightarrow> string list list" where
  "setHistory s h =
     (let h' = s # h in if length h' > HISTORY_LEN then butlast h' else h')"

definition log_call :: "string list \<Rightarrow> 'a state_scheme \<Rightarrow> 'a state_scheme" where
  "log_call e s = s\<lparr>history := setHistory e (history s)\<rparr>"

text \<open>
  \<open>ordinal\<close> and \<open>capitalize\<close> are guarded functions themselves
  (\<open>$("ordinal", n => ...)\<close>), called while an error message is put together. Each takes
  one argument, is given a number or a string there, and returns a string, so the call passes
  the guard and leaves its record in the history (\<open>guarded_helper\<close> below proves it). The
  text they return only goes into the message.
\<close>

definition ordinal :: "'a state_scheme \<Rightarrow> 'a state_scheme" where
  "ordinal s = log_call [''ordinal()''] s"

definition capitalize :: "'a state_scheme \<Rightarrow> 'a state_scheme" where
  "capitalize s = log_call [''capitalize()''] s"

text \<open>
  \<open>introspect\<close> as a step of a computation with state: the handlers under
  \<open>Symbol.toPrimitive\<close> call \<open>capitalize(hint)\<close> before they throw their
  \<open>TypeCoercionError\<close>, which is the only effect \<open>introspect\<close> can have.
\<close>

definition introspectS :: "val \<Rightarrow> 'a state_scheme \<Rightarrow> (error + desc) \<times> 'a state_scheme" where
  "introspectS v s =
     (case introspect v of
        Inl e \<Rightarrow> (Inl e, if e = TypeCoercionError then capitalize s else s)
      | Inr t \<Rightarrow> (Inr t, s))"

section \<open>The function guard\<close>

text \<open>
  \<open>g.length\<close>: the declared parameter count. The \<open>get\<close> trap of a guarded function hands
  every key but \<open>name\<close> and \<open>LOG\<close> to its target.
\<close>

fun fun_length :: "val \<Rightarrow> nat" where
  "fun_length (VFun n l c) = l"
| "fun_length (VGuarded n f lg p k) = fun_length f"
| "fun_length (VId i v) = fun_length v"
| "fun_length v = 0"

text \<open>
  \<open>Reflect.defineProperty(r, "name", {value: name'})\<close>: a proxy without a
  \<open>defineProperty\<close> trap defines the property on its target.
\<close>

fun define_name :: "val \<Rightarrow> string \<Rightarrow> val" where
  "define_name (VFun n l c) nm = VFun nm l c"
| "define_name (VGuarded n f lg p k) nm = VGuarded n (define_name f nm) lg p k"
| "define_name (VId i v) nm = VId i (define_name v nm)"
| "define_name v nm = v"

text \<open>
  \<open>verifyArity\<close>: equality in fixed mode, at least the declared count in variadic mode.
  The message of the error calls \<open>ordinal\<close>.
\<close>

definition verifyArity ::
  "val \<Rightarrow> val list \<Rightarrow> params \<Rightarrow> nat \<Rightarrow> 'a state_scheme \<Rightarrow> (error + unit) \<times> 'a state_scheme" where
  "verifyArity g args params nthCall s =
     (if params = Fix \<and> fun_length g \<noteq> length args
      then (Inl (ArityError (fun_length g) (nthCall + 1) (length args)), ordinal s)
      else if params = Var \<and> fun_length g > length args
      then (Inl (ArityError (fun_length g) (nthCall + 1) (length args)), ordinal s)
      else (Inr (), s))"

text \<open>
  The callback of \<open>args.map\<close> in \<open>verifyArgTypes\<close>, from the argument at index \<open>nthArg\<close>
  on. It returns nothing, so the array that is joined holds \<open>undefined\<close> for each argument.
  The message of the error calls \<open>ordinal\<close> twice.
\<close>

fun verifyArgs ::
  "val list \<Rightarrow> nat \<Rightarrow> nat \<Rightarrow> 'a state_scheme \<Rightarrow> (error + desc list) \<times> 'a state_scheme" where
  "verifyArgs [] nthArg nthCall s = (Inr [], s)"
| "verifyArgs (arg # args) nthArg nthCall s =
     (case introspectS arg s of
        (Inl e, s1) \<Rightarrow> (Inl e, s1)
      | (Inr t, s1) \<Rightarrow>
          if invalid t
          then (Inl (ArgTypeError (nthCall + 1) (nthArg + 1)), ordinal (ordinal s1))
          else (case verifyArgs args (nthArg + 1) nthCall s1 of
                  (Inl e, s2) \<Rightarrow> (Inl e, s2)
                | (Inr us, s2) \<Rightarrow> (Inr (None # us), s2)))"

definition verifyArgTypes ::
  "val list \<Rightarrow> nat \<Rightarrow> 'a state_scheme \<Rightarrow> (error + string) \<times> 'a state_scheme" where
  "verifyArgTypes args nthCall s =
     (case verifyArgs args 0 nthCall s of
        (Inl e, s1) \<Rightarrow> (Inl e, s1)
      | (Inr us, s1) \<Rightarrow> (Inr (join '', '' us), s1))"

definition verifyRetType :: "val \<Rightarrow> 'a state_scheme \<Rightarrow> (error + desc) \<times> 'a state_scheme" where
  "verifyRetType r s =
     (case introspectS r s of
        (Inl e, s1) \<Rightarrow> (Inl e, s1)
      | (Inr t, s1) \<Rightarrow> if invalid t then (Inl ReturnTypeError, s1) else (Inr t, s1))"

text \<open>
  The \<open>apply\<close> trap of \<open>handleF(name, f, log, {params, nthCall})\<close>, called with the
  arguments \<open>args\<close>. \<open>fcall\<close> is what calling \<open>f\<close> does: a result or an exception, and a new
  state. The target \<open>g\<close> of the proxy is \<open>f\<close>.
\<close>

definition handleF ::
  "(val list \<Rightarrow> 'a state_scheme \<Rightarrow> (error + val) \<times> 'a state_scheme) \<Rightarrow>
   string \<Rightarrow> val \<Rightarrow> string list \<Rightarrow> params \<Rightarrow> nat \<Rightarrow>
   val list \<Rightarrow> 'a state_scheme \<Rightarrow> (error + val) \<times> 'a state_scheme" where
  "handleF fcall name f lg params nthCall args s =
     (case verifyArity f args params nthCall s of
        (Inl e, s1) \<Rightarrow> (Inl e, s1)
      | (Inr u, s1) \<Rightarrow>
     (case verifyArgTypes args nthCall s1 of
        (Inl e, s2) \<Rightarrow> (Inl e, s2)
      | (Inr argTypes, s2) \<Rightarrow>
     (case fcall args s2 of
        (Inl e, s3) \<Rightarrow> (Inl e, s3)
      | (Inr r, s3) \<Rightarrow>
     (case verifyRetType r s3 of
        (Inl e, s4) \<Rightarrow> (Inl e, s4)
      | (Inr t, s4) \<Rightarrow>
          if is_function r then
            (let name' = (if fun_name r = [] then name else fun_name r);
                 lg' = lg @ [name @ ''('' @ argTypes @ '')'']
             in (Inr (VGuarded name' (define_name r name') lg' params (nthCall + 1)), s4))
          else (Inr r, log_call (lg @ [name @ ''('' @ argTypes @ '')'']) s4)))))"

text \<open>
  Calling a value. \<open>code\<close> is the table of the bodies of the plain functions; a guarded
  function runs its \<open>apply\<close> trap around its target; anything else is not callable.
\<close>

type_synonym 'a code = "nat \<Rightarrow> val list \<Rightarrow> 'a state_scheme \<Rightarrow> (error + val) \<times> 'a state_scheme"

primrec call :: "'a code \<Rightarrow> val \<Rightarrow> val list \<Rightarrow> 'a state_scheme \<Rightarrow> (error + val) \<times> 'a state_scheme" where
  "call code VUndefined = (\<lambda>args s. (Inl TypeError, s))"
| "call code VNull = (\<lambda>args s. (Inl TypeError, s))"
| "call code (VBool b) = (\<lambda>args s. (Inl TypeError, s))"
| "call code (VNum x) = (\<lambda>args s. (Inl TypeError, s))"
| "call code (VStr t x) = (\<lambda>args s. (Inl TypeError, s))"
| "call code VSym = (\<lambda>args s. (Inl TypeError, s))"
| "call code (VBigInt i) = (\<lambda>args s. (Inl TypeError, s))"
| "call code (VFun n l c) = code c"
| "call code (VGuarded name f lg params nthCall) =
     handleF (call code f) name f lg params nthCall"
| "call code (VArr xs) = (\<lambda>args s. (Inl TypeError, s))"
| "call code (VObj fs) = (\<lambda>args s. (Inl TypeError, s))"
| "call code (VMap kvs) = (\<lambda>args s. (Inl TypeError, s))"
| "call code (VSet xs) = (\<lambda>args s. (Inl TypeError, s))"
| "call code (VRec fs) = (\<lambda>args s. (Inl TypeError, s))"
| "call code (VTup xs) = (\<lambda>args s. (Inl TypeError, s))"
| "call code (VTagged t forbid) = (\<lambda>args s. (Inl TypeError, s))"
| "call code (VSig t sg) = (\<lambda>args s. (Inl TypeError, s))"
| "call code (VId i v) = call code v"

text \<open>
  The function guard \<open>$(name, f)\<close>. The message of each of its errors contains
  \<open>introspect\<close> of the offending argument, which is computed first.
\<close>

definition guard :: "val \<Rightarrow> val \<Rightarrow> 'a state_scheme \<Rightarrow> (error + val) \<times> 'a state_scheme" where
  "guard name f s =
     (if GUARDED then
        (case name of
           VStr nm x \<Rightarrow>
             if \<not> is_function f then
               (case introspectS f s of
                  (Inl e, s1) \<Rightarrow> (Inl e, s1)
                | (Inr t, s1) \<Rightarrow> (Inl (ArgTypeError 1 2), s1))
             else if take 3 nm = ''...'' then (Inr (VGuarded (drop 3 nm) f [] Var 0), s)
             else (Inr (VGuarded nm f [] Fix 0), s)
         | _ \<Rightarrow>
             (case introspectS name s of
                (Inl e, s1) \<Rightarrow> (Inl e, s1)
              | (Inr t, s1) \<Rightarrow> (Inl (ArgTypeError 1 1), s1)))
      else (Inr f, s))"

text \<open>
  \<open>$(nm, f)(...args)\<close> for a function \<open>f\<close> written in place: an arrow function without a
  name, with \<open>len\<close> parameters and the body \<open>body\<close>. A name that starts with three dots
  makes the guard variadic. This is how index.js defines its own guarded functions.
\<close>

definition guarded ::
  "string \<Rightarrow> nat \<Rightarrow> (val list \<Rightarrow> 'a state_scheme \<Rightarrow> (error + val) \<times> 'a state_scheme) \<Rightarrow>
   val list \<Rightarrow> 'a state_scheme \<Rightarrow> (error + val) \<times> 'a state_scheme" where
  "guarded nm len body args s =
     (if take 3 nm = ''...''
      then handleF body (drop 3 nm) (VFun [] len 0) [] Var 0 args s
      else handleF body nm (VFun [] len 0) [] Fix 0 args s)"

text \<open>\<open>args[i]\<close>: a parameter without an argument is \<open>undefined\<close>.\<close>

definition arg :: "val list \<Rightarrow> nat \<Rightarrow> val" where
  "arg args i = (if i < length args then args ! i else VUndefined)"

section \<open>Overloading\<close>

text \<open>
  The state of one overloaded function: the history, and \<open>pairs\<close>, the Map that
  \<open>overload\<close> creates. A Map keeps its entries in insertion order; \<open>set\<close> on a key that is
  present replaces its value in place. A key is present when the Map holds one that is the
  same value: \<open>same_value\<close> above.
\<close>

record ovl_state = state +
  pairs :: "(val \<times> val) list"

fun map_set :: "val \<Rightarrow> val \<Rightarrow> (val \<times> val) list \<Rightarrow> (val \<times> val) list" where
  "map_set k v [] = [(k, v)]"
| "map_set k v ((k', v') # ps) =
     (if same_value k' k then (k', v) # ps else (k', v') # map_set k v ps)"

fun map_get :: "(val \<times> val) list \<Rightarrow> val \<Rightarrow> val" where
  "map_get [] k = VUndefined"
| "map_get ((k', v') # ps) k = (if same_value k' k then v' else map_get ps k)"

text \<open>
  \<open>stringify(x)\<close>, a guarded function of one argument whose body returns \<open>`"${x}"`\<close> for a
  string and \<open>String(x)\<close> otherwise; \<open>String\<close> accepts a Symbol. Only its outcome matters:
  the text goes into a message.
\<close>

definition stringify :: "val \<Rightarrow> 'a state_scheme \<Rightarrow> (error + unit) \<times> 'a state_scheme" where
  "stringify x s =
     (case introspectS x s of
        (Inl e, s1) \<Rightarrow> (Inl e, s1)
      | (Inr t, s1) \<Rightarrow>
          if invalid t then (Inl (ArgTypeError 1 1), ordinal (ordinal s1))
          else (case (if is_symbol x then None else to_string x) of
                  Some e \<Rightarrow> (Inl e, if e = TypeCoercionError then capitalize s1 else s1)
                | None \<Rightarrow> (Inr (), log_call [''stringify()''] s1)))"

text \<open>
  \<open>overload(name, dispatch)\<close> checks its arguments and creates the empty Map; the two
  functions it returns are \<open>overload_add\<close> (the property \<open>`${name}Add`\<close>) and
  \<open>overload_call\<close> (the property \<open>name\<close>) below, for the name it returns.
\<close>

definition overload ::
  "val \<Rightarrow> val \<Rightarrow> 'a ovl_state_scheme \<Rightarrow> (error + string) \<times> 'a ovl_state_scheme" where
  "overload name dispatch s =
     (case name of
        VStr nm x \<Rightarrow>
          if \<not> is_function dispatch then
            (case introspectS dispatch s of
               (Inl e, s1) \<Rightarrow> (Inl e, s1)
             | (Inr t, s1) \<Rightarrow> (Inl (ArgTypeError 1 2), s1))
          else (Inr nm, s\<lparr>pairs := []\<rparr>)
      | _ \<Rightarrow>
          (case introspectS name s of
             (Inl e, s1) \<Rightarrow> (Inl e, s1)
           | (Inr t, s1) \<Rightarrow> (Inl (ArgTypeError 1 1), s1)))"

text \<open>\<open>(k, v) => pairs.set(k, v)\<close>: \<open>Map.prototype.set\<close> returns the Map.\<close>

definition add_body ::
  "val list \<Rightarrow> 'a ovl_state_scheme \<Rightarrow> (error + val) \<times> 'a ovl_state_scheme" where
  "add_body args s =
     (let ps = map_set (arg args 0) (arg args 1) (pairs s)
      in (Inr (VMap ps), s\<lparr>pairs := ps\<rparr>))"

definition overload_add ::
  "string \<Rightarrow> val list \<Rightarrow> 'a ovl_state_scheme \<Rightarrow> (error + val) \<times> 'a ovl_state_scheme" where
  "overload_add nm = guarded (nm @ ''Add'') 2 add_body"

text \<open>
  The body of the overloaded function. The message of the \<open>OverloadError\<close> calls
  \<open>dispatch(x)\<close> once more, then \<open>stringify\<close> and \<open>introspect\<close>.
\<close>

definition call_body ::
  "'a ovl_state_ext code \<Rightarrow> val \<Rightarrow>
   val list \<Rightarrow> 'a ovl_state_scheme \<Rightarrow> (error + val) \<times> 'a ovl_state_scheme" where
  "call_body code dispatch args s =
     (let x = arg args 0 in
      case call code dispatch [x] s of
        (Inl e, s1) \<Rightarrow> (Inl e, s1)
      | (Inr key, s1) \<Rightarrow>
          (let r = map_get (pairs s1) key in
           if r = VUndefined then
             (case call code dispatch [x] s1 of
                (Inl e, s2) \<Rightarrow> (Inl e, s2)
              | (Inr key', s2) \<Rightarrow>
                  (case stringify key' s2 of
                     (Inl e, s3) \<Rightarrow> (Inl e, s3)
                   | (Inr u, s3) \<Rightarrow>
                       (case introspectS x s3 of
                          (Inl e, s4) \<Rightarrow> (Inl e, s4)
                        | (Inr t, s4) \<Rightarrow> (Inl OverloadError, s4))))
           else if is_function r then call code r [x] s1
           else (Inr r, s1)))"

definition overload_call ::
  "'a ovl_state_ext code \<Rightarrow> string \<Rightarrow> val \<Rightarrow>
   val list \<Rightarrow> 'a ovl_state_scheme \<Rightarrow> (error + val) \<times> 'a ovl_state_scheme" where
  "overload_call code nm dispatch = guarded nm 1 (call_body code dispatch)"

section \<open>The homogeneous array proxy\<close>













































section \<open>Inputs for the examples\<close>

text \<open>
  A table of function bodies: number \<open>0\<close> returns the number three, \<open>1\<close> returns
  \<open>undefined\<close>, \<open>2\<close> returns a function, \<open>4\<close> returns the number seven, \<open>5\<close> returns the
  empty record \<open>Rec({})\<close> and every other one the string \<open>"Number"\<close>.
\<close>

definition demo_code :: "'a code" where
  "demo_code c args s =
     (if c = 0 then (Inr (VNum (Finite 3)), s)
      else if c = 1 then (Inr VUndefined, s)
      else if c = 2 then (Inr (VFun [] 1 0), s)
      else if c = 4 then (Inr (VNum (Finite 7)), s)
      else if c = 5 then (Inr (VRec []), s)
      else (Inr (VStr ''Number'' NaN), s))"

definition empty_state :: state where
  "empty_state = \<lparr>history = []\<rparr>"



text \<open>
  States of an overloaded function: nothing registered, a function registered for the key
  \<open>"Number"\<close>, a constant registered for it, a curried function registered for it, and a
  function that returns \<open>undefined\<close> registered for it.
\<close>

definition empty_ovl :: ovl_state where
  "empty_ovl = \<lparr>history = [], pairs = []\<rparr>"

definition number_ovl :: ovl_state where
  "number_ovl = \<lparr>history = [], pairs = [(VStr ''Number'' NaN, VFun ''inc'' 1 0)]\<rparr>"

definition constant_ovl :: ovl_state where
  "constant_ovl = \<lparr>history = [], pairs = [(VStr ''Number'' NaN, VNum (Finite 0))]\<rparr>"

definition curried_ovl :: ovl_state where
  "curried_ovl = \<lparr>history = [], pairs = [(VStr ''Number'' NaN, VFun ''append'' 1 2)]\<rparr>"

definition undefined_ovl :: ovl_state where
  "undefined_ovl = \<lparr>history = [], pairs = [(VStr ''Number'' NaN, VFun ''nothing'' 1 1)]\<rparr>"






section \<open>The checks of a guarded call\<close>

lemma introspectS_Inr: "introspect v = Inr t \<Longrightarrow> introspectS v s = (Inr t, s)"
  by (simp add: introspectS_def)

lemma verifyArgs_valid:
  "\<forall>a\<in>set args. \<exists>t. introspect a = Inr t \<and> \<not> invalid t \<Longrightarrow>
   verifyArgs args k n s = (Inr (replicate (length args) None), s)"
  by (induction args arbitrary: k) (auto simp: introspectS_Inr)

lemma verifyArgTypes_valid:
  "\<forall>a\<in>set args. \<exists>t. introspect a = Inr t \<and> \<not> invalid t \<Longrightarrow>
   verifyArgTypes args n s = (Inr (join '', '' (replicate (length args) None)), s)"
  by (simp add: verifyArgTypes_def verifyArgs_valid)

lemma verifyArgs_first_invalid:
  "i < length args \<Longrightarrow> introspect (args ! i) = Inr t \<Longrightarrow> invalid t \<Longrightarrow>
   \<forall>j<i. \<exists>u. introspect (args ! j) = Inr u \<and> \<not> invalid u \<Longrightarrow>
   verifyArgs args k n s = (Inl (ArgTypeError (Suc n) (Suc (k + i))), ordinal (ordinal s))"
proof (induction args arbitrary: i k)
  case Nil
  then show ?case by simp
next
  case (Cons a args)
  show ?case
  proof (cases i)
    case 0
    with Cons.prems show ?thesis by (simp add: introspectS_Inr)
  next
    case (Suc i')
    from Cons.prems(4) Suc obtain u where u: "introspect a = Inr u" "\<not> invalid u"
      by (metis nth_Cons_0 zero_less_Suc)
    have rest: "\<forall>j<i'. \<exists>u. introspect (args ! j) = Inr u \<and> \<not> invalid u"
      using Cons.prems(4) Suc by (metis Suc_mono nth_Cons_Suc)
    have "verifyArgs args (Suc k) n s = (Inl (ArgTypeError (Suc n) (Suc (Suc k + i'))), ordinal (ordinal s))"
      using Cons.IH[of i' "Suc k"] Cons.prems Suc rest by simp
    then show ?thesis using u Suc by (simp add: introspectS_Inr)
  qed
qed

lemma first_invalid_exists:
  assumes all: "\<forall>a\<in>set args. \<exists>u. introspect a = Inr u"
    and some: "\<exists>a\<in>set args. \<exists>u. introspect a = Inr u \<and> invalid u"
  shows "\<exists>i t. i < length args \<and> introspect (args ! i) = Inr t \<and> invalid t
           \<and> (\<forall>j<i. \<exists>u. introspect (args ! j) = Inr u \<and> \<not> invalid u)"
proof -
  let ?P = "\<lambda>j. j < length args \<and> (\<exists>t. introspect (args ! j) = Inr t \<and> invalid t)"
  from some have "\<exists>j. ?P j" by (metis in_set_conv_nth)
  then obtain i where i: "?P i" and least: "\<forall>j<i. \<not> ?P j"
    using exists_least_iff[of ?P] by blast
  from i obtain t where t: "introspect (args ! i) = Inr t" "invalid t" by blast
  have "\<exists>u. introspect (args ! j) = Inr u \<and> \<not> invalid u" if "j < i" for j
  proof -
    from that i have jl: "j < length args" by simp
    then obtain u where u: "introspect (args ! j) = Inr u" using all by (metis nth_mem)
    moreover have "\<not> invalid u" using least that jl u by auto
    ultimately show ?thesis by blast
  qed
  with i t show ?thesis by blast
qed

lemma verifyArity_ok:
  "\<not> (params = Fix \<and> fun_length f \<noteq> length args) \<Longrightarrow>
   \<not> (params = Var \<and> length args < fun_length f) \<Longrightarrow>
   verifyArity f args params nthCall s = (Inr (), s)"
  by (auto simp: verifyArity_def)

lemma handleF_pass:
  assumes "\<not> (params = Fix \<and> fun_length f \<noteq> length args)"
    and "\<not> (params = Var \<and> length args < fun_length f)"
    and "\<forall>a\<in>set args. \<exists>t. introspect a = Inr t \<and> \<not> invalid t"
    and "fcall args s = (Inr r, s')"
    and "introspect r = Inr t" and "\<not> invalid t"
  shows "handleF fcall name f lg params nthCall args s =
     (if is_function r then
        (Inr (VGuarded (if fun_name r = [] then name else fun_name r)
               (define_name r (if fun_name r = [] then name else fun_name r))
               (lg @ [name @ ''('' @ join '', '' (replicate (length args) None) @ '')''])
               params (Suc nthCall)), s')
      else (Inr r, log_call (lg @ [name @ ''('' @ join '', '' (replicate (length args) None) @ '')'']) s'))"
  using assms
  by (simp add: handleF_def verifyArity_ok verifyArgTypes_valid verifyRetType_def introspectS_Inr Let_def)

lemma handleF_arity:
  "(params = Fix \<and> fun_length f \<noteq> length args) \<or> (params = Var \<and> length args < fun_length f) \<Longrightarrow>
   handleF fcall name f lg params nthCall args s
     = (Inl (ArityError (fun_length f) (Suc nthCall) (length args)), ordinal s)"
  by (auto simp: handleF_def verifyArity_def)

lemma handleF_body_error:
  assumes "\<not> (params = Fix \<and> fun_length f \<noteq> length args)"
    and "\<not> (params = Var \<and> length args < fun_length f)"
    and "\<forall>a\<in>set args. \<exists>t. introspect a = Inr t \<and> \<not> invalid t"
    and "fcall args s = (Inl e, s')"
  shows "handleF fcall name f lg params nthCall args s = (Inl e, s')"
  using assms by (simp add: handleF_def verifyArity_ok verifyArgTypes_valid)

lemma guarded_pass:
  assumes "length args = len"
    and "\<forall>a\<in>set args. \<exists>t. introspect a = Inr t \<and> \<not> invalid t"
    and "body args s = (Inr r, s')"
    and "introspect r = Inr t" and "\<not> invalid t" and "\<not> is_function r"
  shows "guarded nm len body args s =
     (Inr r, log_call [(if take 3 nm = ''...'' then drop 3 nm else nm)
        @ ''('' @ join '', '' (replicate (length args) None) @ '')''] s')"
proof (cases "take 3 nm = ''...''")
  case True
  then show ?thesis
    using handleF_pass[of Var "VFun [] len 0" args body s r s' t "drop 3 nm" "[]" 0] assms
    by (simp add: guarded_def)
next
  case False
  then show ?thesis
    using handleF_pass[of Fix "VFun [] len 0" args body s r s' t nm "[]" 0] assms
    by (simp add: guarded_def)
qed

lemma guarded_continue:
  assumes "length args = len"
    and "\<forall>a\<in>set args. \<exists>t. introspect a = Inr t \<and> \<not> invalid t"
    and "body args s = (Inr r, s')"
    and "introspect r = Inr t" and "\<not> invalid t" and "is_function r"
  shows "guarded nm len body args s =
     (Inr (VGuarded
        (if fun_name r = [] then (if take 3 nm = ''...'' then drop 3 nm else nm) else fun_name r)
        (define_name r
          (if fun_name r = [] then (if take 3 nm = ''...'' then drop 3 nm else nm) else fun_name r))
        [(if take 3 nm = ''...'' then drop 3 nm else nm)
          @ ''('' @ join '', '' (replicate (length args) None) @ '')'']
        (if take 3 nm = ''...'' then Var else Fix) 1), s')"
proof (cases "take 3 nm = ''...''")
  case True
  then show ?thesis
    using handleF_pass[of Var "VFun [] len 0" args body s r s' t "drop 3 nm" "[]" 0] assms
    by (simp add: guarded_def)
next
  case False
  then show ?thesis
    using handleF_pass[of Fix "VFun [] len 0" args body s r s' t nm "[]" 0] assms
    by (simp add: guarded_def)
qed

lemma guarded_body_error:
  assumes "length args = len"
    and "\<forall>a\<in>set args. \<exists>t. introspect a = Inr t \<and> \<not> invalid t"
    and "body args s = (Inl e, s')"
  shows "guarded nm len body args s = (Inl e, s')"
proof (cases "take 3 nm = ''...''")
  case True
  then show ?thesis
    using handleF_body_error[of Var "VFun [] len 0" args body s e s' "drop 3 nm" "[]" 0] assms
    by (simp add: guarded_def)
next
  case False
  then show ?thesis
    using handleF_body_error[of Fix "VFun [] len 0" args body s e s' nm "[]" 0] assms
    by (simp add: guarded_def)
qed

text \<open>
  A guarded function of one parameter whose body returns a string, called with one argument
  that has a valid descriptor: the call passes the guard and leaves its record. This is the
  case of \<open>ordinal\<close>, \<open>capitalize\<close>, \<open>stringify\<close> and \<open>replaceNestings\<close>.
\<close>

lemma guarded_helper:
  assumes "introspect v = Inr t" and "\<not> invalid t"
    and "body [v] s = (Inr (VStr str x), s')" and "take 3 nm \<noteq> ''...''"
  shows "guarded nm 1 body [v] s = (Inr (VStr str x), log_call [nm @ ''()''] s')"
  using guarded_pass[of "[v]" 1 body s "VStr str x" s' "Some ''String''" nm] assms
  by (simp add: INVALID_TYPES_def join_def)

lemma ordinal_guarded:
  assumes "body [VNum (Finite n)] s = (Inr (VStr str x), s)"
  shows "guarded ''ordinal'' 1 body [VNum (Finite n)] s = (Inr (VStr str x), ordinal s)"
  using guarded_helper[of "VNum (Finite n)" "Some ''Number''" body s str x s "''ordinal''"] assms
  by (simp add: INVALID_TYPES_def ordinal_def)

lemma capitalize_guarded:
  assumes "body [VStr hint y] s = (Inr (VStr str x), s)"
  shows "guarded ''capitalize'' 1 body [VStr hint y] s = (Inr (VStr str x), capitalize s)"
  using guarded_helper[of "VStr hint y" "Some ''String''" body s str x s "''capitalize''"] assms
  by (simp add: INVALID_TYPES_def capitalize_def)

text \<open>The descriptor of a function starts with the lambda, so it is never an invalid one.\<close>

lemma is_function_descriptor: "is_function r \<Longrightarrow> \<exists>t. introspect r = Inr t \<and> \<not> invalid t"
  by (induction r) (auto simp: INVALID_TYPES_def lambda_def)

section \<open>Lemmas about Sets of descriptors and traversals\<close>

lemma set_of_fold:
  "set (foldl (\<lambda>s x. set_add x s) acc xs) = set acc \<union> set xs"
  by (induction xs arbitrary: acc) (auto simp: set_add_def)

lemma distinct_fold:
  "distinct acc \<Longrightarrow> distinct (foldl (\<lambda>s x. set_add x s) acc xs)"
  by (induction xs arbitrary: acc) (auto simp: set_add_def)

lemma set_set_of: "set (set_of xs) = set xs"
  by (simp add: set_of_def set_of_fold)

lemma distinct_set_of: "distinct (set_of xs)"
  by (simp add: set_of_def distinct_fold)

lemma length_set_of: "length (set_of xs) = card (set xs)"
  using distinct_card[OF distinct_set_of, of xs] by (simp add: set_set_of)

lemma set_of_same:
  assumes "xs \<noteq> []" and "\<forall>x\<in>set xs. x = a"
  shows "set_of xs = [a]"
proof -
  have "set xs = {a}" using assms by (cases xs) auto
  then have "set (set_of xs) = {a}" "length (set_of xs) = 1"
    by (simp_all add: set_set_of length_set_of)
  then show ?thesis by (cases "set_of xs") auto
qed

lemma set_of_mixed:
  assumes "a \<in> set xs" and "b \<in> set xs" and "a \<noteq> b"
  shows "length (set_of xs) \<noteq> 1"
proof
  assume "length (set_of xs) = 1"
  then have "card (set xs) = 1" by (simp add: length_set_of)
  then obtain c where "set xs = {c}" by (auto simp: card_1_singleton_iff)
  with assms show False by auto
qed

lemma introspects_same:
  "\<forall>x\<in>set xs. introspect x = Inr T \<Longrightarrow> introspects xs = Inr (replicate (length xs) T)"
  by (induction xs) auto

lemma introspects_length: "introspects xs = Inr ts \<Longrightarrow> length ts = length xs"
proof (induction xs arbitrary: ts)
  case Nil
  then show ?case by simp
next
  case (Cons x xs)
  then show ?case
    by (cases "introspect x"; cases "introspects xs") auto
qed

section \<open>Lemmas about the Map of an overloaded function\<close>

text \<open>
  \<open>same_value\<close> is symmetric and transitive. A value is the same as itself when it is
  compared by what it is or carries an identity.
\<close>

lemma same_value_sym: "same_value a b \<Longrightarrow> same_value b a"
  by (auto simp: same_value_def split: option.splits)

lemma same_value_trans: "same_value a b \<Longrightarrow> same_value b c \<Longrightarrow> same_value a c"
  by (auto simp: same_value_def split: option.splits)

lemma same_value_refl: "by_value a \<or> identity a \<noteq> None \<Longrightarrow> same_value a a"
  by (cases a) (auto simp: same_value_def split: option.splits)

lemma map_get_set: "same_value k k' \<Longrightarrow> map_get (map_set k v ps) k' = v"
proof (induction ps)
  case Nil
  then show ?case by simp
next
  case (Cons p ps)
  obtain a b where p: "p = (a, b)" by (cases p)
  show ?case
  proof (cases "same_value a k")
    case True
    then have "same_value a k'" using Cons.prems by (rule same_value_trans)
    with True p show ?thesis by simp
  next
    case False
    have "\<not> same_value a k'"
    proof
      assume "same_value a k'"
      moreover have "same_value k' k" using Cons.prems by (rule same_value_sym)
      ultimately have "same_value a k" by (rule same_value_trans)
      with False show False by simp
    qed
    with False p Cons show ?thesis by simp
  qed
qed

lemma pairs_log_call: "pairs (log_call e s) = pairs s"
  by (simp add: log_call_def)

lemma pairs_introspectS: "pairs (snd (introspectS v s)) = pairs s"
  by (simp add: introspectS_def capitalize_def pairs_log_call split: sum.splits)

lemma pairs_handleF_add:
  assumes "\<not> (params = Fix \<and> fun_length f \<noteq> length args)"
    and "\<not> (params = Var \<and> length args < fun_length f)"
    and "\<forall>a\<in>set args. \<exists>t. introspect a = Inr t \<and> \<not> invalid t"
  shows "pairs (snd (handleF add_body name f lg params nthCall args s))
           = map_set (arg args 0) (arg args 1) (pairs s)"
proof -
  let ?ps = "map_set (arg args 0) (arg args 1) (pairs s)"
  let ?s3 = "s\<lparr>pairs := ?ps\<rparr>"
  have b: "add_body args s = (Inr (VMap ?ps), ?s3)"
    by (simp add: add_body_def Let_def)
  have p: "pairs (snd (introspectS (VMap ?ps) ?s3)) = ?ps"
    by (simp add: pairs_introspectS)
  obtain res s4 where r: "introspectS (VMap ?ps) ?s3 = (res, s4)" by (cases "introspectS (VMap ?ps) ?s3")
  with p have p4: "pairs s4 = ?ps" by simp
  show ?thesis
    using assms b r p4
    by (cases res)
       (simp_all add: handleF_def verifyArity_ok verifyArgTypes_valid verifyRetType_def
          pairs_log_call)
qed

section \<open>The guard lets a correct call through\<close>

text \<open>
  C1. A function wrapped by \<open>$(name, f)\<close> in fixed mode, called with as many arguments as
  it declares, each with a valid descriptor, where \<open>f\<close> returns a value that is not a
  function and has a valid descriptor: the wrapper raises nothing and returns exactly what
  \<open>f\<close> returns. The state after the call is the one \<open>f\<close> left, with the record of the call
  in the history.
\<close>

theorem guard_transparent:
  assumes "is_function f" and "take 3 nm \<noteq> ''...''"
    and "length args = fun_length f"
    and "\<forall>a\<in>set args. \<exists>t. introspect a = Inr t \<and> \<not> invalid t"
    and "call code f args s = (Inr r, s')"
    and "\<not> is_function r" and "introspect r = Inr t" and "\<not> invalid t"
  shows "guard (VStr nm x) f s = (Inr (VGuarded nm f [] Fix 0), s) \<and>
         call code (VGuarded nm f [] Fix 0) args s =
           (Inr r, log_call [nm @ ''('' @ join '', '' (replicate (length args) None) @ '')''] s')"
proof -
  have "guard (VStr nm x) f s = (Inr (VGuarded nm f [] Fix 0), s)"
    using assms(1,2) by (simp add: guard_def GUARDED_def)
  moreover have "handleF (call code f) nm f [] Fix 0 args s =
      (Inr r, log_call [nm @ ''('' @ join '', '' (replicate (length args) None) @ '')''] s')"
    using handleF_pass[of Fix f args "call code f" s r s' t nm "[]" 0] assms by simp
  ultimately show ?thesis by simp
qed

theorem guard_transparent_witness:
  "guard (VStr ''add'' NaN) (VFun ''add'' 2 0) empty_state
     = (Inr (VGuarded ''add'' (VFun ''add'' 2 0) [] Fix 0), empty_state) \<and>
   call demo_code (VGuarded ''add'' (VFun ''add'' 2 0) [] Fix 0)
     [VNum (Finite 1), VNum (Finite 2)] empty_state
     = (Inr (VNum (Finite 3)), \<lparr>history = [[''add(, )'']]\<rparr>)"
  using guard_transparent[of "VFun ''add'' 2 0" "''add''" "[VNum (Finite 1), VNum (Finite 2)]"
      demo_code empty_state "VNum (Finite 3)" empty_state "Some ''Number''" NaN]
  by (simp add: demo_code_def empty_state_def INVALID_TYPES_def log_call_def setHistory_def
      HISTORY_LEN_def join_def)

section \<open>Invalid descriptors\<close>

text \<open>
  A guarded call that passes the arity check, as long as \<open>introspect\<close> returns for the
  arguments it is applied to. When the descriptor of an argument is one of \<open>"Undefined"\<close>,
  \<open>"NaN"\<close> and \<open>"Infinity"\<close>, and the arguments before it have valid descriptors, the call
  raises an \<open>ArgTypeError\<close> that names this argument by its position counted from one (and
  the call by its number in the chain). So when every argument has a descriptor and one of
  them is invalid, the call raises an \<open>ArgTypeError\<close> that names the position of an
  argument with an invalid descriptor. When all arguments have valid descriptors and the
  descriptor of the result is one of the three, the call raises a \<open>ReturnTypeError\<close>.
\<close>

lemma invalid_marker_checking:
  assumes "\<not> (params = Fix \<and> fun_length f \<noteq> length args)"
    and "\<not> (params = Var \<and> length args < fun_length f)"
  shows "(i < length args \<and> (\<forall>j<i. \<exists>u. introspect (args ! j) = Inr u \<and> \<not> invalid u)
           \<and> introspect (args ! i) = Inr t \<and> invalid t \<longrightarrow>
          call code (VGuarded name f lg params nthCall) args s
            = (Inl (ArgTypeError (Suc nthCall) (Suc i)), ordinal (ordinal s)))
       \<and> ((\<forall>a\<in>set args. \<exists>u. introspect a = Inr u)
           \<and> (\<exists>a\<in>set args. \<exists>u. introspect a = Inr u \<and> invalid u) \<longrightarrow>
          (\<exists>k u. k < length args \<and> introspect (args ! k) = Inr u \<and> invalid u
             \<and> call code (VGuarded name f lg params nthCall) args s
                 = (Inl (ArgTypeError (Suc nthCall) (Suc k)), ordinal (ordinal s))))
       \<and> ((\<forall>a\<in>set args. \<exists>u. introspect a = Inr u \<and> \<not> invalid u)
           \<and> call code f args s = (Inr r, s') \<and> introspect r = Inr t' \<and> invalid t' \<longrightarrow>
          call code (VGuarded name f lg params nthCall) args s = (Inl ReturnTypeError, s'))"
proof (intro conjI impI)
  assume a: "i < length args \<and> (\<forall>j<i. \<exists>u. introspect (args ! j) = Inr u \<and> \<not> invalid u)
           \<and> introspect (args ! i) = Inr t \<and> invalid t"
  then have "verifyArgs args 0 nthCall s
      = (Inl (ArgTypeError (Suc nthCall) (Suc (0 + i))), ordinal (ordinal s))"
    by (intro verifyArgs_first_invalid) auto
  then show "call code (VGuarded name f lg params nthCall) args s
            = (Inl (ArgTypeError (Suc nthCall) (Suc i)), ordinal (ordinal s))"
    using assms by (simp add: handleF_def verifyArity_ok verifyArgTypes_def)
next
  assume a: "(\<forall>a\<in>set args. \<exists>u. introspect a = Inr u)
           \<and> (\<exists>a\<in>set args. \<exists>u. introspect a = Inr u \<and> invalid u)"
  then obtain k u where k: "k < length args" "introspect (args ! k) = Inr u" "invalid u"
      "\<forall>j<k. \<exists>w. introspect (args ! j) = Inr w \<and> \<not> invalid w"
    using first_invalid_exists[of args] by blast
  then have "verifyArgs args 0 nthCall s
      = (Inl (ArgTypeError (Suc nthCall) (Suc (0 + k))), ordinal (ordinal s))"
    by (intro verifyArgs_first_invalid) auto
  then have "call code (VGuarded name f lg params nthCall) args s
            = (Inl (ArgTypeError (Suc nthCall) (Suc k)), ordinal (ordinal s))"
    using assms by (simp add: handleF_def verifyArity_ok verifyArgTypes_def)
  with k show "\<exists>k u. k < length args \<and> introspect (args ! k) = Inr u \<and> invalid u
             \<and> call code (VGuarded name f lg params nthCall) args s
                 = (Inl (ArgTypeError (Suc nthCall) (Suc k)), ordinal (ordinal s))"
    by blast
next
  assume a: "(\<forall>a\<in>set args. \<exists>u. introspect a = Inr u \<and> \<not> invalid u)
           \<and> call code f args s = (Inr r, s') \<and> introspect r = Inr t' \<and> invalid t'"
  then show "call code (VGuarded name f lg params nthCall) args s = (Inl ReturnTypeError, s')"
    using assms
    by (simp add: handleF_def verifyArity_ok verifyArgTypes_valid verifyRetType_def introspectS_Inr)
qed

text \<open>
  C2. The claim is that a guarded call that passes the arity check raises an
  \<open>ArgTypeError\<close> naming the position of an argument whose descriptor is one of the invalid
  markers. \<open>verifyArgTypes\<close> applies \<open>introspect\<close> to the arguments from the left, and
  \<open>introspect\<close> throws for a record with a field that cannot be converted to a string (the
  defect of \<open>introspectRec\<close>, C4). In the call \<open>f(Rec({a: Symbol()}), NaN)\<close> of
  \<open>f = $("f", (x, y) => 3)\<close> the number of arguments is the declared one and the
  descriptor of the second argument is \<open>"NaN"\<close>, but the call raises the \<open>TypeError\<close> of
  the first argument: the second one is never looked at, and no \<open>ArgTypeError\<close> is raised.
\<close>

theorem invalid_marker_behind_record:
  "verifyArity (VFun ''f'' 2 0) [VRec [(''a'', VSym)], VNum NaN] Fix 0 empty_state
     = (Inr (), empty_state)
   \<and> introspect (VNum NaN) = Inr (Some ''NaN'')
   \<and> invalid (Some ''NaN'')
   \<and> call demo_code (VGuarded ''f'' (VFun ''f'' 2 0) [] Fix 0)
       [VRec [(''a'', VSym)], VNum NaN] empty_state
     = (Inl TypeError, empty_state)"
  by (simp add: handleF_def verifyArity_def verifyArgTypes_def introspectS_def
      INVALID_TYPES_def MAX_REC_SIZE_def)

section \<open>Arity\<close>

text \<open>
  C3. In fixed mode the declared parameter count must equal the number of arguments, in
  variadic mode it must not exceed it. A call that violates this raises an \<open>ArityError\<close>
  and does not run the underlying function: the outcome is the same for every table of
  function bodies, and the state is the one before the call but for the record that
  \<open>ordinal\<close> leaves. A call that does not violate it passes \<open>verifyArity\<close>.
\<close>

theorem arity_checking:
  "((params = Fix \<and> fun_length f \<noteq> length args) \<or> (params = Var \<and> length args < fun_length f) \<longrightarrow>
      call code (VGuarded name f lg params nthCall) args s
        = (Inl (ArityError (fun_length f) (Suc nthCall) (length args)), ordinal s)
      \<and> call code' (VGuarded name f lg params nthCall) args s
        = call code (VGuarded name f lg params nthCall) args s)
   \<and> (\<not> ((params = Fix \<and> fun_length f \<noteq> length args) \<or> (params = Var \<and> length args < fun_length f)) \<longrightarrow>
      verifyArity f args params nthCall s = (Inr (), s))"
  by (auto simp: handleF_arity verifyArity_ok)

theorem arity_checking_witness:
  "call demo_code (VGuarded ''f'' (VFun ''f'' 2 0) [] Fix 0) [VNum (Finite 1)] empty_state
     = (Inl (ArityError 2 1 1), \<lparr>history = [[''ordinal()'']]\<rparr>)
   \<and> call demo_code (VGuarded ''g'' (VFun ''g'' 2 0) [] Var 0) [VNum (Finite 1)] empty_state
     = (Inl (ArityError 2 1 1), \<lparr>history = [[''ordinal()'']]\<rparr>)
   \<and> verifyArity (VFun ''f'' 2 0) [VNum (Finite 1), VNum (Finite 2)] Fix 0 empty_state
     = (Inr (), empty_state)
   \<and> verifyArity (VFun ''g'' 2 0) [VNum (Finite 1), VNum (Finite 2), VNum (Finite 3)] Var 0 empty_state
     = (Inr (), empty_state)"
  using arity_checking[of Fix "VFun ''f'' 2 0" "[VNum (Finite 1)]" demo_code "''f''" "[]" 0 empty_state demo_code]
    arity_checking[of Var "VFun ''g'' 2 0" "[VNum (Finite 1)]" demo_code "''g''" "[]" 0 empty_state demo_code]
    arity_checking[of Fix "VFun ''f'' 2 0" "[VNum (Finite 1), VNum (Finite 2)]" demo_code "''f''" "[]" 0 empty_state demo_code]
    arity_checking[of Var "VFun ''g'' 2 0" "[VNum (Finite 1), VNum (Finite 2), VNum (Finite 3)]" demo_code "''g''" "[]" 0 empty_state demo_code]
  by (simp add: empty_state_def ordinal_def log_call_def setHistory_def HISTORY_LEN_def)

section \<open>Introspection is not total\<close>

text \<open>
  C4. The claim is that \<open>introspect\<close> returns a descriptor string for every value and
  never throws. \<open>introspectRec\<close> converts every field to a string inside the template
  literal that it hands to \<open>introspect\<close>, so that a record with a field that cannot be
  converted makes \<open>introspect\<close> throw: a \<open>TypeCoercionError\<close> for a field that is a record
  itself, a \<open>TypeError\<close> for a Symbol. For a BigInt \<open>introspect\<close> returns \<open>undefined\<close>.
\<close>

theorem introspect_record_throws:
  "introspect (VRec [(''a'', VRec [(''b'', VNum (Finite 1))])]) = Inl TypeCoercionError
   \<and> introspect (VRec [(''a'', VSym)]) = Inl TypeError
   \<and> introspect (VBigInt 1) = Inr None"
  by (simp add: MAX_REC_SIZE_def)

section \<open>Descriptors of arrays\<close>

text \<open>
  An array whose elements \<open>introspect\<close> describes. When it is not empty and all elements
  have the descriptor \<open>T\<close>, its descriptor is \<open>"[" + T + "]"\<close>. With more than eight
  elements, two of them with different descriptors, it is \<open>"[?]"\<close>. With at most eight, it
  is the descriptors of the elements, in order and joined by \<open>", "\<close>, between the brackets.
\<close>

lemma array_descriptor_collapse:
  "(xs \<noteq> [] \<and> (\<forall>x\<in>set xs. introspect x = Inr T) \<longrightarrow>
      introspect (VArr xs) = Inr (Some (''['' @ tmpl T @ '']'')))
   \<and> (length xs > 8 \<and> introspects xs = Inr ts \<and> a \<in> set ts \<and> b \<in> set ts \<and> a \<noteq> b \<longrightarrow>
      introspect (VArr xs) = Inr (Some ''[?]''))
   \<and> (length xs \<le> 8 \<and> introspects xs = Inr ts \<and> a \<in> set ts \<and> b \<in> set ts \<and> a \<noteq> b \<longrightarrow>
      introspect (VArr xs) = Inr (Some (''['' @ join '', '' ts @ '']'')))"
proof (intro conjI impI)
  assume h: "xs \<noteq> [] \<and> (\<forall>x\<in>set xs. introspect x = Inr T)"
  then have "introspects xs = Inr (replicate (length xs) T)"
    by (simp add: introspects_same)
  moreover have "set_of (replicate (length xs) T) = [T]"
    using h by (intro set_of_same) auto
  ultimately show "introspect (VArr xs) = Inr (Some (''['' @ tmpl T @ '']''))"
    by (simp add: introspectArr_def Let_def)
next
  assume h: "length xs > 8 \<and> introspects xs = Inr ts \<and> a \<in> set ts \<and> b \<in> set ts \<and> a \<noteq> b"
  then have "length (set_of ts) \<noteq> 1" by (intro set_of_mixed[of a ts b]) auto
  moreover have "length ts = length xs" using h by (simp add: introspects_length)
  ultimately show "introspect (VArr xs) = Inr (Some ''[?]'')"
    using h by (simp add: introspectArr_def MAX_TUP_SIZE_def)
next
  assume h: "length xs \<le> 8 \<and> introspects xs = Inr ts \<and> a \<in> set ts \<and> b \<in> set ts \<and> a \<noteq> b"
  then have "length (set_of ts) \<noteq> 1" by (intro set_of_mixed[of a ts b]) auto
  moreover have "length ts = length xs" using h by (simp add: introspects_length)
  ultimately show "introspect (VArr xs) = Inr (Some (''['' @ join '', '' ts @ '']''))"
    using h by (simp add: introspectArr_def MAX_TUP_SIZE_def)
qed

text \<open>
  C5. The claim is that every array of more than eight elements among which two
  descriptors occur has the descriptor \<open>"[?]"\<close>. \<open>introspectArr\<close> applies \<open>introspect\<close>
  to every element, and \<open>introspect\<close> throws for a record with a field that cannot be
  converted to a string (the defect of \<open>introspectRec\<close>, C4). The array
  \<open>[1, 2, 3, 4, 5, 6, 7, 8, "x", Rec({a: Symbol()})]\<close> has ten elements, with the
  descriptors \<open>"Number"\<close> and \<open>"String"\<close> among them, but \<open>introspect\<close> throws a
  \<open>TypeError\<close> instead of returning \<open>"[?]"\<close>.
\<close>

theorem mixed_array_with_record_throws:
  "introspect (VNum (Finite 1)) = Inr (Some ''Number'')
   \<and> introspect (VStr ''x'' NaN) = Inr (Some ''String'')
   \<and> length [VNum (Finite 1), VNum (Finite 2), VNum (Finite 3), VNum (Finite 4),
        VNum (Finite 5), VNum (Finite 6), VNum (Finite 7), VNum (Finite 8), VStr ''x'' NaN,
        VRec [(''a'', VSym)]] = 10
   \<and> introspect (VArr [VNum (Finite 1), VNum (Finite 2), VNum (Finite 3), VNum (Finite 4),
        VNum (Finite 5), VNum (Finite 6), VNum (Finite 7), VNum (Finite 8), VStr ''x'' NaN,
        VRec [(''a'', VSym)]]) = Inl TypeError"
  by (simp add: MAX_REC_SIZE_def)

section \<open>Dispatch of an overloaded function\<close>

text \<open>
  The Map compares objects by identity: an array is not found under a key that is another
  array with the same elements, and it is found under the key that is the same array.
\<close>

lemma map_get_by_identity:
  "map_get (map_set (VArr [VBool True]) (VNum (Finite 1)) []) (VArr [VBool True]) = VUndefined
   \<and> map_get (map_set (VId 1 (VArr [VBool True])) (VNum (Finite 1)) [])
         (VId 1 (VArr [VBool True])) = VNum (Finite 1)
   \<and> map_get (map_set (VId 1 (VArr [VBool True])) (VNum (Finite 1)) [])
         (VId 2 (VArr [VBool True])) = VUndefined
   \<and> map_get (map_set (VNum NaN) (VNum (Finite 1)) []) (VNum NaN) = VNum (Finite 1)"
  by (simp add: same_value_def)

text \<open>A registration whose arguments have valid descriptors reaches the Map.\<close>

lemma pairs_overload_add:
  assumes "introspect k = Inr tk" and "\<not> invalid tk"
    and "introspect v = Inr tv" and "\<not> invalid tv"
  shows "pairs (snd (overload_add nm [k, v] s)) = map_set k v (pairs s)"
proof -
  from assms have kv: "\<forall>a\<in>set [k, v]. \<exists>t. introspect a = Inr t \<and> \<not> invalid t" by simp
  have "pairs (snd (handleF add_body name (VFun [] 2 0) [] params 0 [k, v] s))
          = map_set k v (pairs s)" for name params
    using pairs_handleF_add[of params "VFun [] 2 0" "[k, v]" name "[]" 0 s] kv
    by (simp add: arg_def)
  then show ?thesis by (simp add: overload_add_def guarded_def)
qed

text \<open>
  C6, as stated, fails, since the overloaded function is guarded. An argument with an
  invalid descriptor raises an \<open>ArgTypeError\<close> before the dispatcher runs, whatever is
  registered. When nothing is registered under the key and the dispatcher returns
  \<open>undefined\<close>, the message of the \<open>OverloadError\<close> hands that to the guarded \<open>stringify\<close>,
  which raises an \<open>ArgTypeError\<close> in its place; when the dispatcher returns a record,
  \<open>stringify\<close> cannot convert it and a \<open>TypeCoercionError\<close> takes the place. When the
  registered function returns \<open>undefined\<close>, the call raises a \<open>ReturnTypeError\<close>. And
  a second registration under a key is not the one used when its implementation has an
  invalid descriptor: the guard of the registering function raises an \<open>ArgTypeError\<close>
  and the Map stays as it is.
\<close>

theorem overload_guard_intervenes:
  "overload_call demo_code ''f'' (VFun ''dispatcher'' 1 3) [VNum NaN] empty_ovl
     = (Inl (ArgTypeError 1 1), \<lparr>history = [[''ordinal()''], [''ordinal()'']], pairs = []\<rparr>)
   \<and> overload_call demo_code ''f'' (VFun ''dispatcher'' 1 1) [VNum (Finite 1)] empty_ovl
     = (Inl (ArgTypeError 1 1), \<lparr>history = [[''ordinal()''], [''ordinal()'']], pairs = []\<rparr>)
   \<and> overload_call demo_code ''f'' (VFun ''dispatcher'' 1 5) [VNum (Finite 1)] empty_ovl
     = (Inl TypeCoercionError, \<lparr>history = [[''capitalize()'']], pairs = []\<rparr>)
   \<and> overload_call demo_code ''f'' (VFun ''dispatcher'' 1 3) [VNum (Finite 1)] undefined_ovl
     = (Inl ReturnTypeError, undefined_ovl)
   \<and> overload_add ''f'' [VStr ''Number'' NaN, VNum NaN] constant_ovl
     = (Inl (ArgTypeError 1 2),
        \<lparr>history = [[''ordinal()''], [''ordinal()'']],
          pairs = [(VStr ''Number'' NaN, VNum (Finite 0))]\<rparr>)"
  by (simp add: overload_call_def overload_add_def constant_ovl_def guarded_def handleF_def verifyArity_def verifyArgTypes_def
      verifyRetType_def call_body_def arg_def stringify_def demo_code_def same_value_def
      introspectS_def INVALID_TYPES_def MAX_REC_SIZE_def join_def ordinal_def capitalize_def
      log_call_def setHistory_def HISTORY_LEN_def empty_ovl_def undefined_ovl_def)

text \<open>
  C6, amended. \<open>overload(name, dispatch)\<close>, for a string and a function, creates an empty
  Map and the two functions that work on it. For an argument \<open>x\<close> with a valid descriptor,
  the overloaded function computes \<open>key = dispatch(x)\<close> and looks it up in the Map.
  When nothing is registered under the key it raises an \<open>OverloadError\<close>, provided that
  \<open>dispatch(x)\<close>, called again for the message, returns a key that \<open>stringify\<close> accepts: one
  with a valid descriptor that \<open>String\<close> can convert, a string or a number for instance.
  When a function is registered it calls it with \<open>x\<close> and returns the result, if that is
  not a function and has a valid descriptor; a result that is a function comes back as a
  guarded function with the call in its log. When a value that is not a function is
  registered, with a valid descriptor, it returns that value. A registration with a valid
  key and a valid implementation replaces what was registered before under a key that is
  the same value, so that of two registrations under the same key the later one is found.
\<close>

theorem overload_dispatch:
  assumes "introspect x = Inr tx" and "\<not> invalid tx"
    and "call code dispatch [x] s = (Inr key, s1)"
  shows
   "(is_function dispatch \<longrightarrow>
      overload (VStr nm w) dispatch s0 = (Inr nm, s0\<lparr>pairs := []\<rparr>))
    \<and> (map_get (pairs s1) key = VUndefined
       \<and> call code dispatch [x] s1 = (Inr key2, s2)
       \<and> introspect key2 = Inr tk2 \<and> \<not> invalid tk2
       \<and> (is_symbol key2 \<or> to_string key2 = None) \<longrightarrow>
      overload_call code nm dispatch [x] s = (Inl OverloadError, log_call [''stringify()''] s2))
    \<and> (is_function (map_get (pairs s1) key)
       \<and> call code (map_get (pairs s1) key) [x] s1 = (Inr y, s2)
       \<and> introspect y = Inr ty \<and> \<not> invalid ty \<and> \<not> is_function y \<longrightarrow>
      overload_call code nm dispatch [x] s
        = (Inr y, log_call [(if take 3 nm = ''...'' then drop 3 nm else nm) @ ''()''] s2))
    \<and> (is_function (map_get (pairs s1) key)
       \<and> call code (map_get (pairs s1) key) [x] s1 = (Inr y, s2) \<and> is_function y \<longrightarrow>
      overload_call code nm dispatch [x] s
        = (Inr (VGuarded
             (if fun_name y = [] then (if take 3 nm = ''...'' then drop 3 nm else nm)
              else fun_name y)
             (define_name y
               (if fun_name y = [] then (if take 3 nm = ''...'' then drop 3 nm else nm)
                else fun_name y))
             [(if take 3 nm = ''...'' then drop 3 nm else nm) @ ''()'']
             (if take 3 nm = ''...'' then Var else Fix) 1), s2))
    \<and> (map_get (pairs s1) key \<noteq> VUndefined \<and> \<not> is_function (map_get (pairs s1) key)
       \<and> introspect (map_get (pairs s1) key) = Inr tr \<and> \<not> invalid tr \<longrightarrow>
      overload_call code nm dispatch [x] s
        = (Inr (map_get (pairs s1) key),
           log_call [(if take 3 nm = ''...'' then drop 3 nm else nm) @ ''()''] s1))
    \<and> (introspect k = Inr tk \<and> \<not> invalid tk \<and> introspect v = Inr tv \<and> \<not> invalid tv \<longrightarrow>
      pairs (snd (overload_add nm [k, v] s0)) = map_set k v (pairs s0)
      \<and> (same_value k q \<longrightarrow> map_get (pairs (snd (overload_add nm [k, v] s0))) q = v))
    \<and> (introspect k = Inr tk \<and> \<not> invalid tk \<and> introspect v = Inr tv \<and> \<not> invalid tv
       \<and> introspect k1 = Inr tk1 \<and> \<not> invalid tk1 \<and> introspect v1 = Inr tv1 \<and> \<not> invalid tv1
       \<and> same_value k1 k \<and> same_value k q \<longrightarrow>
      map_get (pairs (snd (overload_add nm [k, v] (snd (overload_add nm [k1, v1] s0))))) q = v)"
proof (intro conjI impI)
  have args: "\<forall>a\<in>set [x]. \<exists>t. introspect a = Inr t \<and> \<not> invalid t"
    using assms(1,2) by simp
  {
    assume "is_function dispatch"
    then show "overload (VStr nm w) dispatch s0 = (Inr nm, s0\<lparr>pairs := []\<rparr>)"
      by (simp add: overload_def)
  }
  {
    assume h: "map_get (pairs s1) key = VUndefined
       \<and> call code dispatch [x] s1 = (Inr key2, s2)
       \<and> introspect key2 = Inr tk2 \<and> \<not> invalid tk2
       \<and> (is_symbol key2 \<or> to_string key2 = None)"
    then have "stringify key2 s2 = (Inr (), log_call [''stringify()''] s2)"
      by (auto simp: stringify_def introspectS_Inr)
    then have "call_body code dispatch [x] s = (Inl OverloadError, log_call [''stringify()''] s2)"
      using h assms by (simp add: call_body_def arg_def introspectS_Inr)
    then show "overload_call code nm dispatch [x] s = (Inl OverloadError, log_call [''stringify()''] s2)"
      using guarded_body_error[of "[x]" 1 "call_body code dispatch" s OverloadError _ nm] args
      by (simp add: overload_call_def)
  }
  {
    assume h: "is_function (map_get (pairs s1) key)
       \<and> call code (map_get (pairs s1) key) [x] s1 = (Inr y, s2)
       \<and> introspect y = Inr ty \<and> \<not> invalid ty \<and> \<not> is_function y"
    then have u: "map_get (pairs s1) key \<noteq> VUndefined" by auto
    have "call_body code dispatch [x] s = (Inr y, s2)"
      using h u assms by (simp add: call_body_def arg_def)
    then show "overload_call code nm dispatch [x] s
        = (Inr y, log_call [(if take 3 nm = ''...'' then drop 3 nm else nm) @ ''()''] s2)"
      using guarded_pass[of "[x]" 1 "call_body code dispatch" s y s2 ty nm] args h
      by (simp add: overload_call_def join_def)
  }
  {
    assume h: "is_function (map_get (pairs s1) key)
       \<and> call code (map_get (pairs s1) key) [x] s1 = (Inr y, s2) \<and> is_function y"
    then have u: "map_get (pairs s1) key \<noteq> VUndefined" by auto
    from h obtain ty where ty: "introspect y = Inr ty" "\<not> invalid ty"
      using is_function_descriptor[of y] by blast
    have "call_body code dispatch [x] s = (Inr y, s2)"
      using h u assms by (simp add: call_body_def arg_def)
    then show "overload_call code nm dispatch [x] s
        = (Inr (VGuarded
             (if fun_name y = [] then (if take 3 nm = ''...'' then drop 3 nm else nm)
              else fun_name y)
             (define_name y
               (if fun_name y = [] then (if take 3 nm = ''...'' then drop 3 nm else nm)
                else fun_name y))
             [(if take 3 nm = ''...'' then drop 3 nm else nm) @ ''()'']
             (if take 3 nm = ''...'' then Var else Fix) 1), s2)"
      using guarded_continue[of "[x]" 1 "call_body code dispatch" s y s2 ty nm] args h ty
      by (simp add: overload_call_def join_def)
  }
  {
    assume h: "map_get (pairs s1) key \<noteq> VUndefined \<and> \<not> is_function (map_get (pairs s1) key)
       \<and> introspect (map_get (pairs s1) key) = Inr tr \<and> \<not> invalid tr"
    have "call_body code dispatch [x] s = (Inr (map_get (pairs s1) key), s1)"
      using h assms by (simp add: call_body_def arg_def)
    then show "overload_call code nm dispatch [x] s
        = (Inr (map_get (pairs s1) key),
           log_call [(if take 3 nm = ''...'' then drop 3 nm else nm) @ ''()''] s1)"
      using guarded_pass[of "[x]" 1 "call_body code dispatch" s "map_get (pairs s1) key" s1 tr nm]
        args h
      by (simp add: overload_call_def join_def)
  }
  {
    assume h: "introspect k = Inr tk \<and> \<not> invalid tk \<and> introspect v = Inr tv \<and> \<not> invalid tv"
    then show p: "pairs (snd (overload_add nm [k, v] s0)) = map_set k v (pairs s0)"
      using pairs_overload_add[of k tk v tv nm s0] by simp
    assume "same_value k q"
    then show "map_get (pairs (snd (overload_add nm [k, v] s0))) q = v"
      unfolding p by (rule map_get_set)
  }
  {
    assume h: "introspect k = Inr tk \<and> \<not> invalid tk \<and> introspect v = Inr tv \<and> \<not> invalid tv
       \<and> introspect k1 = Inr tk1 \<and> \<not> invalid tk1 \<and> introspect v1 = Inr tv1 \<and> \<not> invalid tv1
       \<and> same_value k1 k \<and> same_value k q"
    then have "pairs (snd (overload_add nm [k, v] (snd (overload_add nm [k1, v1] s0))))
        = map_set k v (pairs (snd (overload_add nm [k1, v1] s0)))"
      using pairs_overload_add[of k tk v tv nm "snd (overload_add nm [k1, v1] s0)"] by simp
    then show "map_get (pairs (snd (overload_add nm [k, v] (snd (overload_add nm [k1, v1] s0))))) q = v"
      using h by (simp add: map_get_set)
  }
qed

theorem overload_dispatch_witness:
  "overload (VStr ''f'' NaN) (VFun ''dispatcher'' 1 3) number_ovl = (Inr ''f'', empty_ovl)
   \<and> overload_call demo_code ''f'' (VFun ''dispatcher'' 1 3) [VNum (Finite 1)] empty_ovl
     = (Inl OverloadError, \<lparr>history = [[''stringify()'']], pairs = []\<rparr>)
   \<and> overload_call demo_code ''f'' (VFun ''dispatcher'' 1 4) [VNum (Finite 1)] empty_ovl
     = (Inl OverloadError, \<lparr>history = [[''stringify()'']], pairs = []\<rparr>)
   \<and> overload_call demo_code ''f'' (VFun ''dispatcher'' 1 3) [VNum (Finite 1)] number_ovl
     = (Inr (VNum (Finite 3)),
        \<lparr>history = [[''f()'']], pairs = [(VStr ''Number'' NaN, VFun ''inc'' 1 0)]\<rparr>)
   \<and> overload_call demo_code ''f'' (VFun ''dispatcher'' 1 3) [VNum (Finite 1)] constant_ovl
     = (Inr (VNum (Finite 0)),
        \<lparr>history = [[''f()'']], pairs = [(VStr ''Number'' NaN, VNum (Finite 0))]\<rparr>)
   \<and> overload_call demo_code ''f'' (VFun ''dispatcher'' 1 3) [VNum (Finite 1)] curried_ovl
     = (Inr (VGuarded ''f'' (VFun ''f'' 1 0) [''f()''] Fix 1), curried_ovl)
   \<and> map_get (pairs (snd (overload_add ''f'' [VStr ''Number'' NaN, VNum (Finite 7)] constant_ovl)))
        (VStr ''Number'' NaN) = VNum (Finite 7)
   \<and> map_get (pairs (snd (overload_add ''f'' [VStr ''Number'' NaN, VNum (Finite 7)]
        (snd (overload_add ''f'' [VStr ''Number'' NaN, VNum (Finite 5)] empty_ovl)))))
        (VStr ''Number'' NaN) = VNum (Finite 7)"
proof -
  let ?d = "VFun ''dispatcher'' 1 3"
  let ?d4 = "VFun ''dispatcher'' 1 4"
  let ?x = "VNum (Finite 1)"
  let ?k = "VStr ''Number'' NaN"
  have x: "introspect ?x = Inr (Some ''Number'')" "\<not> invalid (Some ''Number'')"
    by (simp_all add: INVALID_TYPES_def)
  have d: "call demo_code ?d [?x] s = (Inr ?k, s)" for s :: ovl_state
    by (simp add: demo_code_def)
  have d4: "call demo_code ?d4 [?x] s = (Inr (VNum (Finite 7)), s)" for s :: ovl_state
    by (simp add: demo_code_def)
  note inst = overload_dispatch[OF x d, where nm = "''f''" and ?key2.0 = ?k
      and ?tk2.0 = "Some ''String''"
      and ty = "Some ''Number''" and tr = "Some ''Number''"
      and k = ?k and tk = "Some ''String''" and v = "VNum (Finite 7)" and tv = "Some ''Number''"
      and q = ?k
      and ?k1.0 = ?k and ?tk1.0 = "Some ''String''" and ?v1.0 = "VNum (Finite 5)"
      and ?tv1.0 = "Some ''Number''"]
  note inst4 = overload_dispatch[OF x d4, where nm = "''f''" and ?key2.0 = "VNum (Finite 7)"
      and ?tk2.0 = "Some ''Number''"
      and ty = "Some ''Number''" and tr = "Some ''Number''"
      and k = ?k and tk = "Some ''String''" and v = "VNum (Finite 7)" and tv = "Some ''Number''"
      and q = ?k
      and ?k1.0 = ?k and ?tk1.0 = "Some ''String''" and ?v1.0 = "VNum (Finite 5)"
      and ?tv1.0 = "Some ''Number''" and ?s0.0 = empty_ovl
      and s = empty_ovl and ?s2.0 = empty_ovl and y = VNull]
  have 0: "overload (VStr ''f'' NaN) ?d number_ovl = (Inr ''f'', number_ovl\<lparr>pairs := []\<rparr>)"
    using inst[where s = empty_ovl and ?s2.0 = empty_ovl and y = VNull and ?s0.0 = number_ovl
        and w = NaN]
    by simp
  have 1: "overload_call demo_code ''f'' ?d [?x] empty_ovl
     = (Inl OverloadError, log_call [''stringify()''] empty_ovl)"
    using inst[where s = empty_ovl and ?s2.0 = empty_ovl and y = VNull and ?s0.0 = empty_ovl]
      d[of empty_ovl]
    by (simp add: empty_ovl_def INVALID_TYPES_def)
  have 7: "overload_call demo_code ''f'' ?d4 [?x] empty_ovl
     = (Inl OverloadError, log_call [''stringify()''] empty_ovl)"
    using inst4 d4[of empty_ovl]
    by (simp add: empty_ovl_def INVALID_TYPES_def)
  have 2: "overload_call demo_code ''f'' ?d [?x] number_ovl
     = (Inr (VNum (Finite 3)), log_call [''f()''] number_ovl)"
    using inst[where s = number_ovl and ?s2.0 = number_ovl and y = "VNum (Finite 3)"
        and ?s0.0 = empty_ovl]
    by (simp add: number_ovl_def demo_code_def INVALID_TYPES_def same_value_def)
  have 3: "overload_call demo_code ''f'' ?d [?x] constant_ovl
     = (Inr (VNum (Finite 0)), log_call [''f()''] constant_ovl)"
    using inst[where s = constant_ovl and ?s2.0 = constant_ovl and y = VNull
        and ?s0.0 = empty_ovl]
    by (simp add: constant_ovl_def INVALID_TYPES_def same_value_def)
  have 5: "overload_call demo_code ''f'' ?d [?x] curried_ovl
     = (Inr (VGuarded ''f'' (VFun ''f'' 1 0) [''f()''] Fix 1), curried_ovl)"
    using inst[where s = curried_ovl and ?s2.0 = curried_ovl and y = "VFun [] 1 0"
        and ?s0.0 = empty_ovl]
    by (simp add: curried_ovl_def demo_code_def same_value_def)
  have 4: "map_get (pairs (snd (overload_add ''f'' [?k, VNum (Finite 7)] constant_ovl))) ?k
      = VNum (Finite 7)"
    using inst[where s = constant_ovl and ?s2.0 = constant_ovl and y = VNull
        and ?s0.0 = constant_ovl]
    by (simp add: INVALID_TYPES_def same_value_def constant_ovl_def)
  have 6: "map_get (pairs (snd (overload_add ''f'' [?k, VNum (Finite 7)]
        (snd (overload_add ''f'' [?k, VNum (Finite 5)] empty_ovl))))) ?k = VNum (Finite 7)"
    using inst[where s = constant_ovl and ?s2.0 = constant_ovl and y = VNull
        and ?s0.0 = empty_ovl]
    by (simp add: INVALID_TYPES_def same_value_def constant_ovl_def empty_ovl_def)
  show ?thesis using 0 1 2 3 4 5 6 7
    by (simp add: log_call_def setHistory_def HISTORY_LEN_def empty_ovl_def number_ovl_def
        constant_ovl_def)
qed

section \<open>Curried calls\<close>

text \<open>
  C7. A guarded call whose checks pass. When the result is a function, the wrapper returns a
  new guarded function with the log extended by the record of this call and the call index
  incremented, and the state, with the call history in it, is as the underlying function
  left it. When the result is not a function, the wrapper returns it and the history is the
  one the underlying function left with the log of the chain put in front by \<open>setHistory\<close>.
\<close>

theorem curried_continuation:
  assumes "\<not> (params = Fix \<and> fun_length f \<noteq> length args)"
    and "\<not> (params = Var \<and> length args < fun_length f)"
    and "\<forall>a\<in>set args. \<exists>u. introspect a = Inr u \<and> \<not> invalid u"
    and "call code f args s = (Inr r, s')"
    and "introspect r = Inr t" and "\<not> invalid t"
  shows "(is_function r \<longrightarrow>
          call code (VGuarded name f lg params nthCall) args s
            = (Inr (VGuarded (if fun_name r = [] then name else fun_name r)
                     (define_name r (if fun_name r = [] then name else fun_name r))
                     (lg @ [name @ ''('' @ join '', '' (replicate (length args) None) @ '')''])
                     params (nthCall + 1)), s'))
       \<and> (\<not> is_function r \<longrightarrow>
          call code (VGuarded name f lg params nthCall) args s
            = (Inr r, s'\<lparr>history := setHistory
                 (lg @ [name @ ''('' @ join '', '' (replicate (length args) None) @ '')''])
                 (history s')\<rparr>))"
  using handleF_pass[of params f args "call code f" s r s' t name lg nthCall] assms
  by (simp add: log_call_def)

theorem curried_continuation_witness:
  "call demo_code (VGuarded ''add'' (VFun ''add'' 1 2) [] Fix 0) [VNum (Finite 1)] empty_state
     = (Inr (VGuarded ''add'' (VFun ''add'' 1 0) [''add()''] Fix 1), empty_state)
   \<and> call demo_code (VGuarded ''add'' (VFun ''add'' 1 0) [''add()''] Fix 1) [VNum (Finite 2)] empty_state
     = (Inr (VNum (Finite 3)), \<lparr>history = [[''add()'', ''add()'']]\<rparr>)"
proof -
  have 1: "call demo_code (VGuarded ''add'' (VFun ''add'' 1 2) [] Fix 0) [VNum (Finite 1)] empty_state
     = (Inr (VGuarded ''add'' (VFun ''add'' 1 0) [''add()''] Fix 1), empty_state)"
    using curried_continuation[of Fix "VFun ''add'' 1 2" "[VNum (Finite 1)]" demo_code empty_state
        "VFun [] 1 0" empty_state "Some lambda" "''add''" "[]" 0]
    by (simp add: INVALID_TYPES_def demo_code_def lambda_def join_def)
  have 2: "call demo_code (VGuarded ''add'' (VFun ''add'' 1 0) [''add()''] Fix 1) [VNum (Finite 2)] empty_state
     = (Inr (VNum (Finite 3)), empty_state\<lparr>history := setHistory [''add()'', ''add()''] (history empty_state)\<rparr>)"
    using curried_continuation[of Fix "VFun ''add'' 1 0" "[VNum (Finite 2)]" demo_code empty_state
        "VNum (Finite 3)" empty_state "Some ''Number''" "''add''" "[''add()'']" 1]
    by (simp add: INVALID_TYPES_def demo_code_def join_def)
  show ?thesis using 1 2 by (simp add: empty_state_def setHistory_def HISTORY_LEN_def)
qed

section \<open>The call history as a ring buffer\<close>


























section \<open>Assignments through the array proxy\<close>














section \<open>The proxy of the empty array\<close>





end
